theory Spec2Isabelle
  imports Main "HOL-Library.Word"
begin

section \<open>The MinerU document-extraction action\<close>

text \<open>
  The source is one action, \<^verbatim>\<open>getDocumentContent\<close>, whose \<^verbatim>\<open>run\<close> function builds a
  multipart form from the resolved property values, sends it with one POST and shapes
  the response. The embedding follows \<^verbatim>\<open>run\<close> line by line. What \<^verbatim>\<open>run\<close> calls but
  does not define is taken as a parameter: the MIME table (\<^verbatim>\<open>mime.lookup\<close>), the
  serialiser \<^verbatim>\<open>JSON.stringify\<close> and the HTTP client (\<^verbatim>\<open>httpClient.sendRequest\<close>).
\<close>

subsection \<open>JavaScript values the action handles\<close>

type_synonym byte = "8 word"

text \<open>
  \<^verbatim>\<open>Property.File\<close> resolves to an object with a file name, the bytes and an optional
  extension.
\<close>

record ApFile =
  filename :: string
  data :: "byte list"
  extension :: "string option"

text \<open>
  \<^verbatim>\<open>context.propsValue\<close>. A property declared \<^verbatim>\<open>required: false\<close> may be undefined
  (\<open>None\<close>); the two dropdowns and the server URL are required strings. The page
  bounds are numbers holding integers.
\<close>

record propsValue =
  apiServerUrl :: string
  inputFile :: ApFile
  langList :: "string option"
  backend :: string
  backendServerUrl :: "string option"
  parseMethod :: string
  formulaEnable :: "bool option"
  tableEnable :: "bool option"
  returnMD :: "bool option"
  returnMiddleJson :: "bool option"
  returnModelOutput :: "bool option"
  returnContentList :: "bool option"
  returnImages :: "bool option"
  responseFormatZip :: "bool option"
  startPageId :: "int option"
  endPageId :: "int option"

text \<open>
  Truthiness, as \<^verbatim>\<open>if (x)\<close> and \<^verbatim>\<open>x ? a : b\<close> test it: undefined, the empty string,
  the number 0 and \<^verbatim>\<open>false\<close> are falsy.
\<close>

definition truthy_string :: "string \<Rightarrow> bool" where
  "truthy_string s = (s \<noteq> [])"

fun truthy_opt_string :: "string option \<Rightarrow> bool" where
  "truthy_opt_string None = False"
| "truthy_opt_string (Some s) = truthy_string s"

fun truthy_number :: "int option \<Rightarrow> bool" where
  "truthy_number None = False"
| "truthy_number (Some n) = (n \<noteq> 0)"

fun truthy_bool :: "bool option \<Rightarrow> bool" where
  "truthy_bool None = False"
| "truthy_bool (Some b) = b"

text \<open>
  \<^verbatim>\<open>String(n)\<close> and the interpolation of a number into a template literal, for a
  number holding an integer (a page number, an HTTP status): the decimal numeral, with
  a minus sign before a negative one. That is what JavaScript prints for a safe integer,
  one of magnitude at most \<open>2\<^sup>5\<^sup>3 - 1\<close> (\<^verbatim>\<open>Number.isSafeInteger\<close>); beyond that range a
  number does not hold every integer and prints rounded digits, or an exponent from
  \<open>10\<^sup>2\<^sup>1\<close> on, so \<open>String_number\<close> is read only at safe integers. Fractions and
  \<^verbatim>\<open>NaN\<close> are outside the model.
\<close>

definition isSafeInteger :: "int \<Rightarrow> bool" where
  "isSafeInteger n = (\<bar>n\<bar> \<le> 9007199254740991)"

definition digit_char :: "nat \<Rightarrow> char" where
  "digit_char d = ''0123456789'' ! (d mod 10)"

fun nat_digits :: "nat \<Rightarrow> string" where
  "nat_digits n =
     (if n < 10 then [digit_char n] else nat_digits (n div 10) @ [digit_char (n mod 10)])"

definition String_number :: "int \<Rightarrow> string" where
  "String_number n =
     (if n < 0 then CHR ''-'' # nat_digits (nat (- n)) else nat_digits (nat n))"

text \<open>
  Interpolation of an optional string into a template literal: \<^verbatim>\<open>undefined\<close> prints
  as the word itself.
\<close>

fun template_string :: "string option \<Rightarrow> string" where
  "template_string None = ''undefined''"
| "template_string (Some s) = s"

subsection \<open>The multipart form\<close>

text \<open>
  \<^verbatim>\<open>new Blob([file.data], {type: mimeType})\<close>: the bytes and the \<^verbatim>\<open>type\<close> option handed
  to the constructor.
\<close>

record Blob =
  blob_parts :: "byte list"
  blob_type :: string

text \<open>
  An entry of a \<^verbatim>\<open>FormData\<close> is a name with a string, or with a blob and its file
  name. \<^verbatim>\<open>append\<close> adds the entry at the end and keeps earlier entries of that name.
\<close>

datatype FormDataEntryValue = StringValue string | FileValue Blob string

type_synonym FormData = "(string \<times> FormDataEntryValue) list"

definition form_append :: "FormData \<Rightarrow> string \<Rightarrow> FormDataEntryValue \<Rightarrow> FormData" where
  "form_append form name v = form @ [(name, v)]"

text \<open>
  Line 116: \<^verbatim>\<open>file.extension ? mime.lookup(file.extension) || 'application/octet-stream'
  : 'application/octet-stream'\<close>. The table \<open>mime_lookup\<close> answers \<open>None\<close> where
  \<^verbatim>\<open>mime.lookup\<close> answers \<^verbatim>\<open>false\<close>; \<^verbatim>\<open>||\<close> also replaces an empty string.
\<close>

definition resolve_mimeType :: "(string \<Rightarrow> string option) \<Rightarrow> ApFile \<Rightarrow> string" where
  "resolve_mimeType mime_lookup f =
     (if truthy_opt_string (extension f)
      then (if truthy_opt_string (mime_lookup (the (extension f)))
            then the (mime_lookup (the (extension f)))
            else ''application/octet-stream'')
      else ''application/octet-stream'')"

definition bool_literal :: "bool option \<Rightarrow> string" where
  "bool_literal b = (if truthy_bool b then ''true'' else ''false'')"

text \<open>
  Lines 116 to 136: the blob, the empty form and the appends, in the source's order.
  \<open>the\<close> is only reached under the truthiness test that excludes \<open>None\<close>.
\<close>

definition build_form :: "(string \<Rightarrow> string option) \<Rightarrow> propsValue \<Rightarrow> FormData" where
  "build_form mime_lookup p =
     (let mimeType = resolve_mimeType mime_lookup (inputFile p);
          blob = \<lparr>blob_parts = data (inputFile p), blob_type = mimeType\<rparr>;
          form = [];
          form = form_append form ''files'' (FileValue blob (filename (inputFile p)));
          form = (if truthy_opt_string (langList p)
                  then form_append form ''lang_list'' (StringValue (the (langList p)))
                  else form);
          form = (if truthy_string (backend p)
                  then form_append form ''backend'' (StringValue (backend p))
                  else form);
          form = (if truthy_string (parseMethod p)
                  then form_append form ''parse_method'' (StringValue (parseMethod p))
                  else form);
          form = (if truthy_opt_string (backendServerUrl p)
                  then form_append form ''server_url'' (StringValue (the (backendServerUrl p)))
                  else form);
          form = (if truthy_number (startPageId p)
                  then form_append form ''start_page_id''
                         (StringValue (String_number (the (startPageId p))))
                  else form);
          form = (if truthy_number (endPageId p)
                  then form_append form ''end_page_id''
                         (StringValue (String_number (the (endPageId p))))
                  else form);
          form = form_append form ''formula_enable'' (StringValue (bool_literal (formulaEnable p)));
          form = form_append form ''table_enable'' (StringValue (bool_literal (tableEnable p)));
          form = form_append form ''return_md'' (StringValue (bool_literal (returnMD p)));
          form = form_append form ''return_middle_json''
                   (StringValue (bool_literal (returnMiddleJson p)));
          form = form_append form ''return_model_output''
                   (StringValue (bool_literal (returnModelOutput p)));
          form = form_append form ''return_content_list''
                   (StringValue (bool_literal (returnContentList p)));
          form = form_append form ''return_images'' (StringValue (bool_literal (returnImages p)));
          form = form_append form ''response_format_zip''
                   (StringValue (bool_literal (responseFormatZip p)))
      in form)"

subsection \<open>The HTTP call\<close>

datatype HttpMethod = GET | POST | PUT | PATCH | DELETE | HEAD

record HttpRequest =
  url :: string
  httpMethod :: HttpMethod
  headers :: "(string \<times> string) list"
  request_body :: FormData

text \<open>
  A response body is a \<^verbatim>\<open>Buffer\<close>, a plain \<^verbatim>\<open>Uint8Array\<close>, or any other value
  (a parsed JSON document, a string, \<^verbatim>\<open>undefined\<close>, ...), whose type \<open>'v\<close> is left
  open: \<^verbatim>\<open>run\<close> only passes such a value on.
\<close>

datatype 'v ResponseBody =
    BufferBody "byte list"
  | Uint8ArrayBody "byte list"
  | OtherBody 'v

record 'v HttpResponse =
  status :: int
  body :: "'v ResponseBody"

text \<open>
  The client either throws (\<open>Inl\<close>, an exception of type \<open>'e\<close>) or returns a
  response. The network is the list of requests sent so far; \<open>sendRequest\<close> adds
  the request to it, whatever the client answers.
\<close>

type_synonym ('e, 'v) httpClient = "HttpRequest \<Rightarrow> 'e + 'v HttpResponse"

definition sendRequest ::
  "('e, 'v) httpClient \<Rightarrow> HttpRequest \<Rightarrow> HttpRequest list
     \<Rightarrow> ('e + 'v HttpResponse) \<times> HttpRequest list" where
  "sendRequest client request net = (client request, net @ [request])"

subsection \<open>Base64\<close>

text \<open>
  \<^verbatim>\<open>Buffer.from(zipData).toString('base64')\<close>: the standard alphabet, three bytes to
  four characters, padded with \<^verbatim>\<open>=\<close>.
\<close>

definition base64_alphabet :: string where
  "base64_alphabet = ''ABCDEFGHIJKLMNOPQRSTUVWXYZabcdefghijklmnopqrstuvwxyz0123456789+/''"

definition sextet :: "nat \<Rightarrow> char" where
  "sextet n = base64_alphabet ! (n mod 64)"

fun base64_groups :: "nat list \<Rightarrow> string" where
  "base64_groups (a # b # c # rest) =
     (let n = a * 65536 + b * 256 + c
      in [sextet (n div 262144), sextet (n div 4096), sextet (n div 64), sextet n]
         @ base64_groups rest)"
| "base64_groups [a, b] =
     (let n = a * 65536 + b * 256
      in [sextet (n div 262144), sextet (n div 4096), sextet (n div 64), CHR ''=''])"
| "base64_groups [a] =
     (let n = a * 65536
      in [sextet (n div 262144), sextet (n div 4096), CHR ''='', CHR ''=''])"
| "base64_groups [] = []"

definition toString_base64 :: "byte list \<Rightarrow> string" where
  "toString_base64 bytes = base64_groups (map unat bytes)"

subsection \<open>The action\<close>

text \<open>
  What \<^verbatim>\<open>run\<close> throws: an \<^verbatim>\<open>Error\<close> with a message, or whatever the client threw,
  passed on unchanged.
\<close>

datatype 'e thrown = Error string | ClientException 'e

text \<open>
  What \<^verbatim>\<open>run\<close> returns: the object literal of lines 159 to 163, as its keys and
  values in order, or the response body itself.
\<close>

datatype 'v returned =
    ObjectLiteral "(string \<times> string) list"
  | ResponseBodyValue "'v ResponseBody"

text \<open>
  \<^verbatim>\<open>zipData instanceof Buffer || zipData instanceof Uint8Array\<close>, with the bytes that
  \<^verbatim>\<open>Buffer.from(zipData)\<close> copies when the test succeeds.
\<close>

definition binary_bytes :: "'v ResponseBody \<Rightarrow> byte list option" where
  "binary_bytes zipData =
     (case zipData of
        BufferBody bs \<Rightarrow> Some bs
      | Uint8ArrayBody bs \<Rightarrow> Some bs
      | OtherBody _ \<Rightarrow> None)"

definition status_error_message :: "int \<Rightarrow> string option \<Rightarrow> string" where
  "status_error_message st js =
     ''MinerU API request failed with status '' @ String_number st @ '': ''
       @ template_string js"

definition format_error_message :: string where
  "format_error_message = ''Expected ZIP file response but received non-binary data.''"

text \<open>
  Lines 147 to 171, what \<^verbatim>\<open>run\<close> does with the response. \<open>JSON_stringify\<close> answers
  \<open>None\<close> where \<^verbatim>\<open>JSON.stringify\<close> answers \<^verbatim>\<open>undefined\<close>; on the bodies an HTTP client
  returns (bytes, strings, parsed JSON) it does not throw.
\<close>

definition handle_response ::
  "('v ResponseBody \<Rightarrow> string option) \<Rightarrow> propsValue \<Rightarrow> 'v HttpResponse
     \<Rightarrow> 'e thrown + 'v returned" where
  "handle_response JSON_stringify p response =
     (if status response \<ge> 300
      then Inl (Error (status_error_message (status response) (JSON_stringify (body response))))
      else if truthy_bool (responseFormatZip p)
      then (let zipData = body response
            in case binary_bytes zipData of
                 Some bytes \<Rightarrow>
                   Inr (ObjectLiteral
                     [(''filename'', filename (inputFile p) @ ''_mineru_result.zip''),
                      (''data'', toString_base64 bytes),
                      (''extension'', ''zip'')])
               | None \<Rightarrow> Inl (Error format_error_message))
      else Inr (ResponseBodyValue (body response)))"

text \<open>Lines 138 to 145: the request of the one call.\<close>

definition build_request :: "(string \<Rightarrow> string option) \<Rightarrow> propsValue \<Rightarrow> HttpRequest" where
  "build_request mime_lookup p =
     \<lparr>url = apiServerUrl p @ ''/file_parse'',
      httpMethod = POST,
      headers = [(''Content-Type'', ''multipart/form-data'')],
      request_body = build_form mime_lookup p\<rparr>"

text \<open>
  \<^verbatim>\<open>run\<close>: the outcome and the network after it. An exception of the client leaves
  \<^verbatim>\<open>run\<close> at the \<^verbatim>\<open>await\<close>.
\<close>

definition run ::
  "(string \<Rightarrow> string option) \<Rightarrow> ('v ResponseBody \<Rightarrow> string option) \<Rightarrow> ('e, 'v) httpClient
     \<Rightarrow> propsValue \<Rightarrow> HttpRequest list \<Rightarrow> ('e thrown + 'v returned) \<times> HttpRequest list" where
  "run mime_lookup JSON_stringify client p net =
     (case sendRequest client (build_request mime_lookup p) net of
        (Inl e, net') \<Rightarrow> (Inl (ClientException e), net')
      | (Inr response, net') \<Rightarrow> (handle_response JSON_stringify p response, net'))"

subsection \<open>Reading a form and a run\<close>

text \<open>\<^verbatim>\<open>FormData.getAll\<close>: the values appended under a name, in order.\<close>

definition form_getAll :: "FormData \<Rightarrow> string \<Rightarrow> FormDataEntryValue list" where
  "form_getAll form name = map snd (filter (\<lambda>entry. fst entry = name) form)"

text \<open>The requests an invocation adds to a network that held \<open>net\<close> before it.\<close>

definition requests_sent ::
  "(string \<Rightarrow> string option) \<Rightarrow> ('v ResponseBody \<Rightarrow> string option) \<Rightarrow> ('e, 'v) httpClient
     \<Rightarrow> propsValue \<Rightarrow> HttpRequest list \<Rightarrow> HttpRequest list" where
  "requests_sent mime_lookup JSON_stringify client p net =
     drop (length net) (snd (run mime_lookup JSON_stringify client p net))"

subsection \<open>An example environment\<close>

text \<open>
  An example invocation: a PDF sent to \<^verbatim>\<open>http://h\<close> with the \<^verbatim>\<open>pipeline\<close> backend and
  the declared default of every other property. The table knows two extensions; the
  client answers every request with one fixed response; response bodies that are not
  binary are plain strings, and the serialiser is given at the one body the examples use.
\<close>

definition example_mime_lookup :: "string \<Rightarrow> string option" where
  "example_mime_lookup ext =
     (if ext = ''pdf'' then Some ''application/pdf''
      else if ext = ''png'' then Some ''image/png''
      else None)"

definition example_props :: propsValue where
  "example_props =
     \<lparr>apiServerUrl = ''http://h'',
      inputFile = \<lparr>filename = ''a.pdf'', data = [0x25, 0x50, 0x44, 0x46],
                    extension = Some ''pdf''\<rparr>,
      langList = Some [],
      backend = ''pipeline'',
      backendServerUrl = None,
      parseMethod = ''auto'',
      formulaEnable = Some True,
      tableEnable = Some True,
      returnMD = Some True,
      returnMiddleJson = Some False,
      returnModelOutput = Some False,
      returnContentList = Some False,
      returnImages = Some False,
      responseFormatZip = Some False,
      startPageId = Some 0,
      endPageId = Some 99999\<rparr>"

definition example_client :: "int \<Rightarrow> string ResponseBody \<Rightarrow> (unit, string) httpClient" where
  "example_client st b = (\<lambda>request. Inr \<lparr>status = st, body = b\<rparr>)"

definition example_stringify :: "string ResponseBody \<Rightarrow> string option" where
  "example_stringify b =
     (if b = OtherBody ''Not Found'' then Some (CHR 0x22 # ''Not Found'' @ [CHR 0x22])
      else None)"

section \<open>Properties\<close>

subsection \<open>Auxiliary facts\<close>

lemma base64_test_vectors:
  "toString_base64 [0x4d, 0x61, 0x6e] = ''TWFu''"
  "toString_base64 [0x4d, 0x61] = ''TWE=''"
  "toString_base64 [0x4d] = ''TQ==''"
  "toString_base64 [] = []"
  by (simp_all add: toString_base64_def sextet_def base64_alphabet_def)

lemma String_number_examples:
  "String_number 0 = ''0''"
  "String_number 404 = ''404''"
  "String_number (- 12) = ''-12''"
  by (simp_all add: String_number_def digit_char_def)

lemma run_response:
  assumes "client (build_request mime_lookup p) = Inr response"
  shows "run mime_lookup JSON_stringify client p net =
           (handle_response JSON_stringify p response, net @ [build_request mime_lookup p])"
  using assms by (simp add: run_def sendRequest_def)

lemma run_exception:
  assumes "client (build_request mime_lookup p) = Inl e"
  shows "run mime_lookup JSON_stringify client p net =
           (Inl (ClientException e), net @ [build_request mime_lookup p])"
  using assms by (simp add: run_def sendRequest_def)

lemma run_network:
  "snd (run mime_lookup JSON_stringify client p net) = net @ [build_request mime_lookup p]"
  by (cases "client (build_request mime_lookup p)") (simp_all add: run_response run_exception)

text \<open>The form as the list of its entries, one segment for each line 122 to 136.\<close>

lemma build_form_entries:
  "build_form mime_lookup p =
     [(''files'', FileValue \<lparr>blob_parts = data (inputFile p),
                            blob_type = resolve_mimeType mime_lookup (inputFile p)\<rparr>
                  (filename (inputFile p)))]
     @ (if truthy_opt_string (langList p)
        then [(''lang_list'', StringValue (the (langList p)))] else [])
     @ (if truthy_string (backend p) then [(''backend'', StringValue (backend p))] else [])
     @ (if truthy_string (parseMethod p)
        then [(''parse_method'', StringValue (parseMethod p))] else [])
     @ (if truthy_opt_string (backendServerUrl p)
        then [(''server_url'', StringValue (the (backendServerUrl p)))] else [])
     @ (if truthy_number (startPageId p)
        then [(''start_page_id'', StringValue (String_number (the (startPageId p))))] else [])
     @ (if truthy_number (endPageId p)
        then [(''end_page_id'', StringValue (String_number (the (endPageId p))))] else [])
     @ [(''formula_enable'', StringValue (bool_literal (formulaEnable p))),
        (''table_enable'', StringValue (bool_literal (tableEnable p))),
        (''return_md'', StringValue (bool_literal (returnMD p))),
        (''return_middle_json'', StringValue (bool_literal (returnMiddleJson p))),
        (''return_model_output'', StringValue (bool_literal (returnModelOutput p))),
        (''return_content_list'', StringValue (bool_literal (returnContentList p))),
        (''return_images'', StringValue (bool_literal (returnImages p))),
        (''response_format_zip'', StringValue (bool_literal (responseFormatZip p)))]"
  by (simp add: build_form_def Let_def form_append_def)

lemma form_getAll_append:
  "form_getAll (xs @ ys) name = form_getAll xs name @ form_getAll ys name"
  by (simp add: form_getAll_def)

lemma form_getAll_if:
  "form_getAll (if c then xs else ys) name =
     (if c then form_getAll xs name else form_getAll ys name)"
  by simp

lemma form_getAll_Cons:
  "form_getAll ((k, v) # xs) name =
     (if k = name then v # form_getAll xs name else form_getAll xs name)"
  by (simp add: form_getAll_def)

lemma form_getAll_Nil: "form_getAll [] name = []"
  by (simp add: form_getAll_def)

lemmas form_getAll_simps =
  build_form_entries form_getAll_append form_getAll_if form_getAll_Cons form_getAll_Nil

lemma bool_literal_cases:
  "bool_literal b = (if b = Some True then ''true'' else ''false'')"
  by (cases b) (simp_all add: bool_literal_def)

subsection \<open>The status check\<close>

text \<open>
  C1. When the client returns a response, \<^verbatim>\<open>run\<close> throws the error whose message is
  \<^verbatim>\<open>MinerU API request failed with status\<close>, the status code in decimal, a colon and the
  JSON-stringified body exactly when the status is 300 or above: it fails so for every
  such status, and never for a status below 300.
\<close>

theorem status_error_iff_status_ge_300:
  assumes "client (build_request mime_lookup p) = Inr response"
  shows "fst (run mime_lookup JSON_stringify client p net) =
           Inl (Error (''MinerU API request failed with status ''
                       @ String_number (status response) @ '': ''
                       @ template_string (JSON_stringify (body response))))
         \<longleftrightarrow> 300 \<le> status response"
proof -
  have "fst (run mime_lookup JSON_stringify client p net) =
          handle_response JSON_stringify p response"
    by (simp add: run_response [where client = client and mime_lookup = mime_lookup and p = p, OF assms])
  then show ?thesis
    by (simp add: handle_response_def status_error_message_def format_error_message_def
          split: option.split)
qed

theorem status_error_iff_status_ge_300_witness:
  "example_client 404 (OtherBody ''Not Found'')
       (build_request example_mime_lookup example_props) =
     Inr \<lparr>status = 404, body = OtherBody ''Not Found''\<rparr>
   \<and> fst (run example_mime_lookup example_stringify
              (example_client 404 (OtherBody ''Not Found'')) example_props []) =
       Inl (Error (''MinerU API request failed with status 404: ''
                   @ CHR 0x22 # ''Not Found'' @ [CHR 0x22]))"
proof -
  have sent: "example_client 404 (OtherBody ''Not Found'')
                (build_request example_mime_lookup example_props) =
              Inr \<lparr>status = 404, body = OtherBody ''Not Found''\<rparr>"
    by (simp add: example_client_def)
  from status_error_iff_status_ge_300
         [where client = "example_client 404 (OtherBody ''Not Found'')"
            and mime_lookup = example_mime_lookup and p = example_props
            and JSON_stringify = example_stringify and net = "[]", OF sent] sent
  show ?thesis
    by (simp add: example_stringify_def String_number_def digit_char_def)
qed

subsection \<open>The ZIP result\<close>

text \<open>
  C2. With \<^verbatim>\<open>responseFormatZip\<close> true, a status below 300 and a response body that is a
  \<^verbatim>\<open>Buffer\<close> or a \<^verbatim>\<open>Uint8Array\<close>, \<^verbatim>\<open>run\<close> returns the object with \<^verbatim>\<open>filename\<close> the file's
  name followed by \<^verbatim>\<open>_mineru_result.zip\<close>, \<^verbatim>\<open>data\<close> the base64 text of the body's bytes and
  \<^verbatim>\<open>extension\<close> \<^verbatim>\<open>zip\<close>.
\<close>

theorem zip_result_of_binary_body:
  assumes "client (build_request mime_lookup p) = Inr response"
    and "responseFormatZip p = Some True"
    and "status response < 300"
    and "body response = BufferBody bs \<or> body response = Uint8ArrayBody bs"
  shows "fst (run mime_lookup JSON_stringify client p net) =
           Inr (ObjectLiteral
                 [(''filename'', filename (inputFile p) @ ''_mineru_result.zip''),
                  (''data'', toString_base64 bs),
                  (''extension'', ''zip'')])"
proof -
  have "binary_bytes (body response) = Some bs"
    using assms(4) by (auto simp: binary_bytes_def)
  with assms(2,3) show ?thesis
    by (simp add: run_response [where client = client and mime_lookup = mime_lookup and p = p, OF assms(1)] handle_response_def)
qed

theorem zip_result_of_binary_body_witness:
  "example_client 200 (BufferBody [0x50, 0x4b, 0x03, 0x04])
       (build_request example_mime_lookup (example_props\<lparr>responseFormatZip := Some True\<rparr>)) =
     Inr \<lparr>status = 200, body = BufferBody [0x50, 0x4b, 0x03, 0x04]\<rparr>
   \<and> responseFormatZip (example_props\<lparr>responseFormatZip := Some True\<rparr>) = Some True
   \<and> fst (run example_mime_lookup example_stringify
              (example_client 200 (BufferBody [0x50, 0x4b, 0x03, 0x04]))
              (example_props\<lparr>responseFormatZip := Some True\<rparr>) []) =
       Inr (ObjectLiteral [(''filename'', ''a.pdf_mineru_result.zip''),
                           (''data'', ''UEsDBA==''),
                           (''extension'', ''zip'')])"
proof -
  let ?p = "example_props\<lparr>responseFormatZip := Some True\<rparr>"
  let ?r = "\<lparr>status = 200, body = BufferBody [0x50, 0x4b, 0x03, 0x04]\<rparr> :: string HttpResponse"
  have sent: "example_client 200 (BufferBody [0x50, 0x4b, 0x03, 0x04])
                (build_request example_mime_lookup ?p) = Inr ?r"
    by (simp add: example_client_def)
  have zip: "responseFormatZip ?p = Some True"
    by simp
  have ok: "status ?r < 300"
    by simp
  have bin: "body ?r = BufferBody [0x50, 0x4b, 0x03, 0x04]
               \<or> body ?r = Uint8ArrayBody [0x50, 0x4b, 0x03, 0x04]"
    by simp
  from zip_result_of_binary_body
         [where client = "example_client 200 (BufferBody [0x50, 0x4b, 0x03, 0x04])"
            and mime_lookup = example_mime_lookup and p = ?p
            and JSON_stringify = example_stringify and net = "[]", OF sent zip ok bin] sent
  show ?thesis
    by (simp add: example_props_def toString_base64_def sextet_def base64_alphabet_def)
qed

text \<open>
  C3. With \<^verbatim>\<open>responseFormatZip\<close> true and a status below 300, a response body that is neither
  a \<^verbatim>\<open>Buffer\<close> nor a \<^verbatim>\<open>Uint8Array\<close> makes \<^verbatim>\<open>run\<close> throw the error
  \<^verbatim>\<open>Expected ZIP file response but received non-binary data.\<close>; it returns no value.
\<close>

theorem format_error_of_other_body:
  assumes "client (build_request mime_lookup p) = Inr response"
    and "responseFormatZip p = Some True"
    and "status response < 300"
    and "body response = OtherBody v"
  shows "fst (run mime_lookup JSON_stringify client p net) =
           Inl (Error ''Expected ZIP file response but received non-binary data.'')"
  using assms(2,3,4)
  by (simp add: run_response [where client = client and mime_lookup = mime_lookup and p = p, OF assms(1)] handle_response_def binary_bytes_def
        format_error_message_def)

theorem format_error_of_other_body_witness:
  "example_client 200 (OtherBody ''Not Found'')
       (build_request example_mime_lookup (example_props\<lparr>responseFormatZip := Some True\<rparr>)) =
     Inr \<lparr>status = 200, body = OtherBody ''Not Found''\<rparr>
   \<and> responseFormatZip (example_props\<lparr>responseFormatZip := Some True\<rparr>) = Some True
   \<and> fst (run example_mime_lookup example_stringify
              (example_client 200 (OtherBody ''Not Found''))
              (example_props\<lparr>responseFormatZip := Some True\<rparr>) []) =
       Inl (Error ''Expected ZIP file response but received non-binary data.'')"
proof -
  let ?p = "example_props\<lparr>responseFormatZip := Some True\<rparr>"
  let ?r = "\<lparr>status = 200, body = OtherBody ''Not Found''\<rparr> :: string HttpResponse"
  have sent: "example_client 200 (OtherBody ''Not Found'')
                (build_request example_mime_lookup ?p) = Inr ?r"
    by (simp add: example_client_def)
  have zip: "responseFormatZip ?p = Some True"
    by simp
  have ok: "status ?r < 300"
    by simp
  have other: "body ?r = OtherBody ''Not Found''"
    by simp
  from format_error_of_other_body
         [where client = "example_client 200 (OtherBody ''Not Found'')"
            and mime_lookup = example_mime_lookup and p = ?p
            and JSON_stringify = example_stringify and net = "[]", OF sent zip ok other] sent
  show ?thesis
    by simp
qed

subsection \<open>The default result\<close>

text \<open>
  C4. With \<^verbatim>\<open>responseFormatZip\<close> false (or left undefined) and a status below 300, \<^verbatim>\<open>run\<close>
  returns the response body as it is, whether that body is a \<^verbatim>\<open>Buffer\<close>, a \<^verbatim>\<open>Uint8Array\<close>
  or any other value.
\<close>

theorem body_returned_unmodified:
  assumes "client (build_request mime_lookup p) = Inr response"
    and "responseFormatZip p \<noteq> Some True"
    and "status response < 300"
  shows "fst (run mime_lookup JSON_stringify client p net) =
           Inr (ResponseBodyValue (body response))"
proof -
  have "\<not> truthy_bool (responseFormatZip p)"
    using assms(2) by (cases "responseFormatZip p") auto
  with assms(3) show ?thesis
    by (simp add: run_response [where client = client and mime_lookup = mime_lookup and p = p, OF assms(1)] handle_response_def)
qed

theorem body_returned_unmodified_witness:
  "example_client 200 (Uint8ArrayBody [1, 2, 3])
       (build_request example_mime_lookup example_props) =
     Inr \<lparr>status = 200, body = Uint8ArrayBody [1, 2, 3]\<rparr>
   \<and> responseFormatZip example_props \<noteq> Some True
   \<and> fst (run example_mime_lookup example_stringify
              (example_client 200 (Uint8ArrayBody [1, 2, 3])) example_props []) =
       Inr (ResponseBodyValue (Uint8ArrayBody [1, 2, 3]))"
proof -
  let ?r = "\<lparr>status = 200, body = Uint8ArrayBody [1, 2, 3]\<rparr> :: string HttpResponse"
  have sent: "example_client 200 (Uint8ArrayBody [1, 2, 3])
                (build_request example_mime_lookup example_props) = Inr ?r"
    by (simp add: example_client_def)
  have json: "responseFormatZip example_props \<noteq> Some True"
    by (simp add: example_props_def)
  have ok: "status ?r < 300"
    by simp
  from body_returned_unmodified
         [where client = "example_client 200 (Uint8ArrayBody [1, 2, 3])"
            and mime_lookup = example_mime_lookup and p = example_props
            and JSON_stringify = example_stringify and net = "[]", OF sent json ok] sent json
  show ?thesis
    by simp
qed

subsection \<open>The fields of the form\<close>

text \<open>
  C5. The form holds no \<^verbatim>\<open>start_page_id\<close> field when \<^verbatim>\<open>startPageId\<close> is 0 or undefined, and
  exactly one for every other value; for a safe integer the value of that field is the
  number as a decimal string. Likewise \<^verbatim>\<open>end_page_id\<close> for \<^verbatim>\<open>endPageId\<close>. So an explicit
  start page of 0, the declared default, is left out of the form.
\<close>

theorem page_fields_omitted_when_falsy:
  "(startPageId p = None \<or> startPageId p = Some 0 \<longrightarrow>
      form_getAll (build_form mime_lookup p) ''start_page_id'' = [])
   \<and> (startPageId p = Some n \<and> n \<noteq> 0 \<longrightarrow>
      length (form_getAll (build_form mime_lookup p) ''start_page_id'') = 1)
   \<and> (startPageId p = Some n \<and> n \<noteq> 0 \<and> isSafeInteger n \<longrightarrow>
      form_getAll (build_form mime_lookup p) ''start_page_id'' =
        [StringValue (String_number n)])
   \<and> (endPageId p = None \<or> endPageId p = Some 0 \<longrightarrow>
      form_getAll (build_form mime_lookup p) ''end_page_id'' = [])
   \<and> (endPageId p = Some m \<and> m \<noteq> 0 \<longrightarrow>
      length (form_getAll (build_form mime_lookup p) ''end_page_id'') = 1)
   \<and> (endPageId p = Some m \<and> m \<noteq> 0 \<and> isSafeInteger m \<longrightarrow>
      form_getAll (build_form mime_lookup p) ''end_page_id'' =
        [StringValue (String_number m)])
   \<and> form_getAll (build_form mime_lookup (p\<lparr>startPageId := Some 0\<rparr>)) ''start_page_id'' = []"
proof -
  have start:
    "form_getAll (build_form mime_lookup q) ''start_page_id'' =
       (if truthy_number (startPageId q)
        then [StringValue (String_number (the (startPageId q)))] else [])" for q
    by (simp add: form_getAll_simps)
  have end_page:
    "form_getAll (build_form mime_lookup p) ''end_page_id'' =
       (if truthy_number (endPageId p)
        then [StringValue (String_number (the (endPageId p)))] else [])"
    by (simp add: form_getAll_simps)
  show ?thesis
    unfolding start end_page by auto
qed

theorem page_fields_omitted_when_falsy_witness:
  "startPageId example_props = Some 0
   \<and> endPageId example_props = Some 99999
   \<and> (99999 :: int) \<noteq> 0
   \<and> isSafeInteger 99999
   \<and> form_getAll (build_form example_mime_lookup example_props) ''start_page_id'' = []
   \<and> length (form_getAll (build_form example_mime_lookup example_props) ''end_page_id'') = 1
   \<and> form_getAll (build_form example_mime_lookup example_props) ''end_page_id'' =
       [StringValue ''99999'']"
  using page_fields_omitted_when_falsy
          [of example_props example_mime_lookup 1 99999]
  by (simp add: example_props_def isSafeInteger_def String_number_def digit_char_def)

text \<open>
  C6. The blob of the \<^verbatim>\<open>files\<close> part carries the type the lookup table gives for the
  file's extension when the extension is present (defined and not empty) and the table
  knows it, and \<^verbatim>\<open>application/octet-stream\<close> when the extension is absent or the table
  does not know it. The table knows an extension when it answers a MIME type, a
  non-empty string; an empty answer, like \<^verbatim>\<open>false\<close>, gives the fallback.
\<close>

theorem file_part_mime_type:
  "form_getAll (build_form mime_lookup p) ''files'' =
     [FileValue
        \<lparr>blob_parts = data (inputFile p),
         blob_type =
           (case extension (inputFile p) of
              None \<Rightarrow> ''application/octet-stream''
            | Some ext \<Rightarrow>
                if ext = [] then ''application/octet-stream''
                else (case mime_lookup ext of
                        None \<Rightarrow> ''application/octet-stream''
                      | Some t \<Rightarrow> if t = [] then ''application/octet-stream'' else t))\<rparr>
        (filename (inputFile p))]"
  by (simp add: form_getAll_simps resolve_mimeType_def truthy_string_def split: option.split)

theorem file_part_mime_type_witness:
  "form_getAll (build_form example_mime_lookup example_props) ''files'' =
     [FileValue \<lparr>blob_parts = [0x25, 0x50, 0x44, 0x46], blob_type = ''application/pdf''\<rparr>
        ''a.pdf'']
   \<and> form_getAll
         (build_form example_mime_lookup
            (example_props\<lparr>inputFile := \<lparr>filename = ''notes'', data = [], extension = None\<rparr>\<rparr>))
         ''files'' =
     [FileValue \<lparr>blob_parts = [], blob_type = ''application/octet-stream''\<rparr> ''notes'']
   \<and> form_getAll
         (build_form example_mime_lookup
            (example_props\<lparr>inputFile := \<lparr>filename = ''a.xyz'', data = [],
                                          extension = Some ''xyz''\<rparr>\<rparr>))
         ''files'' =
     [FileValue \<lparr>blob_parts = [], blob_type = ''application/octet-stream''\<rparr> ''a.xyz'']"
  using file_part_mime_type [of example_mime_lookup example_props]
    file_part_mime_type [of example_mime_lookup
      "example_props\<lparr>inputFile := \<lparr>filename = ''notes'', data = [], extension = None\<rparr>\<rparr>"]
    file_part_mime_type [of example_mime_lookup
      "example_props\<lparr>inputFile := \<lparr>filename = ''a.xyz'', data = [],
                                    extension = Some ''xyz''\<rparr>\<rparr>"]
  by (simp add: example_props_def example_mime_lookup_def)

text \<open>
  C7. Each of \<^verbatim>\<open>langList\<close>, \<^verbatim>\<open>backend\<close>, \<^verbatim>\<open>parseMethod\<close> and \<^verbatim>\<open>backendServerUrl\<close> left empty
  (the empty string, or undefined where the property is optional) gives no form field
  \<^verbatim>\<open>lang_list\<close>, \<^verbatim>\<open>backend\<close>, \<^verbatim>\<open>parse_method\<close>, \<^verbatim>\<open>server_url\<close>, and otherwise one field with the
  string; each of the eight flags gives exactly one field, whose value is \<^verbatim>\<open>true\<close> when the
  flag is true and \<^verbatim>\<open>false\<close> otherwise.
\<close>

theorem string_fields_and_flag_fields:
  "form_getAll (build_form mime_lookup p) ''lang_list'' =
     (case langList p of
        None \<Rightarrow> []
      | Some s \<Rightarrow> if s = [] then [] else [StringValue s])
   \<and> form_getAll (build_form mime_lookup p) ''backend'' =
     (if backend p = [] then [] else [StringValue (backend p)])
   \<and> form_getAll (build_form mime_lookup p) ''parse_method'' =
     (if parseMethod p = [] then [] else [StringValue (parseMethod p)])
   \<and> form_getAll (build_form mime_lookup p) ''server_url'' =
     (case backendServerUrl p of
        None \<Rightarrow> []
      | Some s \<Rightarrow> if s = [] then [] else [StringValue s])
   \<and> form_getAll (build_form mime_lookup p) ''formula_enable'' =
     [StringValue (if formulaEnable p = Some True then ''true'' else ''false'')]
   \<and> form_getAll (build_form mime_lookup p) ''table_enable'' =
     [StringValue (if tableEnable p = Some True then ''true'' else ''false'')]
   \<and> form_getAll (build_form mime_lookup p) ''return_md'' =
     [StringValue (if returnMD p = Some True then ''true'' else ''false'')]
   \<and> form_getAll (build_form mime_lookup p) ''return_middle_json'' =
     [StringValue (if returnMiddleJson p = Some True then ''true'' else ''false'')]
   \<and> form_getAll (build_form mime_lookup p) ''return_model_output'' =
     [StringValue (if returnModelOutput p = Some True then ''true'' else ''false'')]
   \<and> form_getAll (build_form mime_lookup p) ''return_content_list'' =
     [StringValue (if returnContentList p = Some True then ''true'' else ''false'')]
   \<and> form_getAll (build_form mime_lookup p) ''return_images'' =
     [StringValue (if returnImages p = Some True then ''true'' else ''false'')]
   \<and> form_getAll (build_form mime_lookup p) ''response_format_zip'' =
     [StringValue (if responseFormatZip p = Some True then ''true'' else ''false'')]"
proof -
  have strings:
    "form_getAll (build_form mime_lookup p) ''lang_list'' =
       (case langList p of None \<Rightarrow> [] | Some s \<Rightarrow> if s = [] then [] else [StringValue s])"
    "form_getAll (build_form mime_lookup p) ''backend'' =
       (if backend p = [] then [] else [StringValue (backend p)])"
    "form_getAll (build_form mime_lookup p) ''parse_method'' =
       (if parseMethod p = [] then [] else [StringValue (parseMethod p)])"
    "form_getAll (build_form mime_lookup p) ''server_url'' =
       (case backendServerUrl p of
          None \<Rightarrow> [] | Some s \<Rightarrow> if s = [] then [] else [StringValue s])"
    by (simp_all add: form_getAll_simps truthy_string_def split: option.split)
  have flags:
    "form_getAll (build_form mime_lookup p) ''formula_enable'' =
       [StringValue (bool_literal (formulaEnable p))]"
    "form_getAll (build_form mime_lookup p) ''table_enable'' =
       [StringValue (bool_literal (tableEnable p))]"
    "form_getAll (build_form mime_lookup p) ''return_md'' =
       [StringValue (bool_literal (returnMD p))]"
    "form_getAll (build_form mime_lookup p) ''return_middle_json'' =
       [StringValue (bool_literal (returnMiddleJson p))]"
    "form_getAll (build_form mime_lookup p) ''return_model_output'' =
       [StringValue (bool_literal (returnModelOutput p))]"
    "form_getAll (build_form mime_lookup p) ''return_content_list'' =
       [StringValue (bool_literal (returnContentList p))]"
    "form_getAll (build_form mime_lookup p) ''return_images'' =
       [StringValue (bool_literal (returnImages p))]"
    "form_getAll (build_form mime_lookup p) ''response_format_zip'' =
       [StringValue (bool_literal (responseFormatZip p))]"
    by (simp_all add: form_getAll_simps)
  show ?thesis
    unfolding strings flags bool_literal_cases by simp
qed

theorem string_fields_and_flag_fields_witness:
  "langList example_props = Some []
   \<and> backendServerUrl example_props = None
   \<and> form_getAll (build_form example_mime_lookup example_props) ''lang_list'' = []
   \<and> form_getAll (build_form example_mime_lookup example_props) ''server_url'' = []
   \<and> form_getAll (build_form example_mime_lookup example_props) ''backend'' =
       [StringValue ''pipeline'']
   \<and> form_getAll (build_form example_mime_lookup example_props) ''formula_enable'' =
       [StringValue ''true'']
   \<and> form_getAll (build_form example_mime_lookup example_props) ''return_images'' =
       [StringValue ''false'']"
  using string_fields_and_flag_fields [of example_mime_lookup example_props]
  by (simp add: example_props_def)

subsection \<open>The one request\<close>

text \<open>
  C8. An invocation leaves the network as it was with exactly one request added: a POST
  to the \<^verbatim>\<open>apiServerUrl\<close> followed by \<^verbatim>\<open>/file_parse\<close>, with the header \<^verbatim>\<open>Content-Type\<close>
  \<^verbatim>\<open>multipart/form-data\<close> and the form as its body. This holds whatever the client answers
  or throws, so \<^verbatim>\<open>run\<close> sends nothing a second time.
\<close>

theorem exactly_one_post:
  "snd (run mime_lookup JSON_stringify client p net) =
     net @ [\<lparr>url = apiServerUrl p @ ''/file_parse'',
              httpMethod = POST,
              headers = [(''Content-Type'', ''multipart/form-data'')],
              request_body = build_form mime_lookup p\<rparr>]
   \<and> length (requests_sent mime_lookup JSON_stringify client p net) = 1"
  by (simp add: requests_sent_def run_network build_request_def)

theorem exactly_one_post_witness:
  "map url (snd (run example_mime_lookup example_stringify
                   (example_client 500 (OtherBody ''Not Found'')) example_props [])) =
     [''http://h/file_parse'']
   \<and> map httpMethod (snd (run example_mime_lookup example_stringify
                   (example_client 500 (OtherBody ''Not Found'')) example_props [])) =
     [POST]"
  using exactly_one_post [of example_mime_lookup example_stringify
          "example_client 500 (OtherBody ''Not Found'')" example_props "[]"]
  by (simp add: example_props_def)

text \<open>
  C9. The form sent depends on the property values only (given the lookup table): two
  invocations with equal property values send equal forms, entry by entry in the same
  order, whatever the client, the serialiser and the earlier traffic of each are.
\<close>

theorem form_determined_by_props:
  assumes "p = q"
  shows "map request_body (requests_sent mime_lookup JSON_stringify client p net) =
         map request_body (requests_sent mime_lookup JSON_stringify' client' q net')"
  using assms by (simp add: requests_sent_def run_network build_request_def)

theorem form_determined_by_props_witness:
  "map request_body
     (requests_sent example_mime_lookup example_stringify
        (example_client 200 (OtherBody ''Not Found'')) example_props []) =
   map request_body
     (requests_sent example_mime_lookup (\<lambda>b. None)
        (example_client 500 (BufferBody [])) example_props
        [build_request example_mime_lookup example_props])"
  using form_determined_by_props
          [of example_props example_props example_mime_lookup example_stringify
             "example_client 200 (OtherBody ''Not Found'')" "[]" "\<lambda>b. None"
             "example_client 500 (BufferBody [])"
             "[build_request example_mime_lookup example_props]"]
  by simp

subsection \<open>The order of the checks\<close>

text \<open>
  C10. The status is checked before the format: a response with status 300 or above
  makes \<^verbatim>\<open>run\<close> throw the status error, and not the format error, also when
  \<^verbatim>\<open>responseFormatZip\<close> is true and the body is not binary; and when \<^verbatim>\<open>run\<close> throws the
  format error, the status was below 300.
\<close>

theorem status_check_before_format_check:
  assumes "client (build_request mime_lookup p) = Inr response"
  shows "(300 \<le> status response \<longrightarrow>
            fst (run mime_lookup JSON_stringify client p net) =
              Inl (Error (status_error_message (status response)
                            (JSON_stringify (body response))))
            \<and> fst (run mime_lookup JSON_stringify client p net) \<noteq>
              Inl (Error format_error_message))
         \<and> (fst (run mime_lookup JSON_stringify client p net) =
               Inl (Error format_error_message) \<longrightarrow>
             status response < 300)"
proof -
  have outcome: "fst (run mime_lookup JSON_stringify client p net) =
                   handle_response JSON_stringify p response"
    by (simp add: run_response
          [where client = client and mime_lookup = mime_lookup and p = p, OF assms])
  have differ: "status_error_message st js \<noteq> format_error_message" for st js
    by (simp add: status_error_message_def format_error_message_def)
  show ?thesis
    unfolding outcome
    by (simp add: handle_response_def differ split: option.split)
qed

theorem status_check_before_format_check_witness:
  "responseFormatZip (example_props\<lparr>responseFormatZip := Some True\<rparr>) = Some True
   \<and> binary_bytes (OtherBody ''Not Found'') = None
   \<and> fst (run example_mime_lookup example_stringify
              (example_client 500 (OtherBody ''Not Found''))
              (example_props\<lparr>responseFormatZip := Some True\<rparr>) []) =
       Inl (Error (''MinerU API request failed with status 500: ''
                   @ CHR 0x22 # ''Not Found'' @ [CHR 0x22]))"
proof -
  let ?p = "example_props\<lparr>responseFormatZip := Some True\<rparr>"
  let ?r = "\<lparr>status = 500, body = OtherBody ''Not Found''\<rparr> :: string HttpResponse"
  have sent: "example_client 500 (OtherBody ''Not Found'')
                (build_request example_mime_lookup ?p) = Inr ?r"
    by (simp add: example_client_def)
  from status_check_before_format_check
         [where client = "example_client 500 (OtherBody ''Not Found'')"
            and mime_lookup = example_mime_lookup and p = ?p
            and JSON_stringify = example_stringify and net = "[]", OF sent]
  show ?thesis
    by (simp add: status_error_message_def example_stringify_def String_number_def
          digit_char_def binary_bytes_def)
qed

end
